theory Spec2Isabelle
  imports Complex_Main "HOL-Library.Log_Nat" "HOL-Library.Multiset"
begin

section \<open>Python strings\<close>

text \<open>
  A Python \<open>str\<close> is modelled as a \<open>string\<close> of ASCII characters. The three string
  methods the skill matcher uses are \<open>split(',')\<close>, \<open>strip()\<close> and \<open>lower()\<close>.
  On ASCII text \<open>str.isspace\<close> holds for the code points 9 to 13 and 28 to 32, and
  \<open>str.lower\<close> maps \<open>A\<close>..\<open>Z\<close> to \<open>a\<close>..\<open>z\<close> and leaves every other character alone.
\<close>

definition isspace :: "char \<Rightarrow> bool" where
  "isspace c = (let n = (of_char c :: nat) in (9 \<le> n \<and> n \<le> 13) \<or> (28 \<le> n \<and> n \<le> 32))"

definition lower_char :: "char \<Rightarrow> char" where
  "lower_char c = (let n = (of_char c :: nat) in if 65 \<le> n \<and> n \<le> 90 then char_of (n + 32) else c)"

definition lower :: "string \<Rightarrow> string" where
  "lower s = map lower_char s"

definition lstrip :: "string \<Rightarrow> string" where
  "lstrip s = dropWhile isspace s"

definition rstrip :: "string \<Rightarrow> string" where
  "rstrip s = rev (dropWhile isspace (rev s))"

definition strip :: "string \<Rightarrow> string" where
  "strip s = rstrip (lstrip s)"

text \<open>
  \<open>s.split(sep)\<close> with a one-character separator: one more piece than there are
  separators, empty pieces kept, so \<open>''.split(',')\<close> is \<open>['']\<close>.
\<close>

fun split :: "char \<Rightarrow> string \<Rightarrow> string list" where
  "split sep [] = [[]]"
| "split sep (c # cs) =
     (if c = sep then [] # split sep cs
      else (case split sep cs of [] \<Rightarrow> [[c]] | t # ts \<Rightarrow> (c # t) # ts))"


section \<open>Python floats\<close>

text \<open>
  A finite IEEE 754 binary64 value is modelled by the rational number it denotes.
  Every arithmetic operation returns the exact result rounded to the nearest
  representable value, ties to the even significand. The matcher only produces
  values between 0 and 100, far from overflow.
\<close>

datatype py_error = ZeroDivisionError | AttributeError

definition round_half_even :: "rat \<Rightarrow> int" where
  "round_half_even x =
     (let f = \<lfloor>x\<rfloor>; r = x - of_int f
      in if r < 1 / 2 then f else if 1 / 2 < r then f + 1 else if even f then f else f + 1)"

text \<open>The binary exponent \<open>\<lfloor>log\<^sub>2 x\<rfloor>\<close> of a positive rational.\<close>

definition ilog2 :: "rat \<Rightarrow> int" where
  "ilog2 x =
     (if 1 \<le> x then bitlen \<lfloor>x\<rfloor> - 1
      else (let k = bitlen \<lfloor>1 / x\<rfloor> - 1 in if x * 2 ^ nat k = 1 then - k else - k - 1))"

text \<open>
  Rounding to binary64: 53 significant bits, so the spacing of representable values
  around \<open>x\<close> is \<open>2\<close> to the power \<open>ilog2 x - 52\<close>; below the smallest normal number
  \<open>2\<close> to the \<open>-1022\<close> the spacing stays that of the subnormals.
\<close>

definition ulp :: "rat \<Rightarrow> rat" where
  "ulp x = 2 powi (max (ilog2 x) (- 1022) - 52)"

definition round_double :: "rat \<Rightarrow> rat" where
  "round_double x =
     (if x = 0 then 0
      else sgn x * (of_int (round_half_even (\<bar>x\<bar> / ulp \<bar>x\<bar>)) * ulp \<bar>x\<bar>))"

text \<open>\<open>a / b\<close> on two Python ints: the correctly rounded quotient, or ZeroDivisionError.\<close>

definition truediv :: "int \<Rightarrow> int \<Rightarrow> py_error + rat" where
  "truediv a b = (if b = 0 then Inl ZeroDivisionError else Inr (round_double (of_int a / of_int b)))"

text \<open>\<open>x * k\<close> on a float and a Python int that converts to a float exactly.\<close>

definition float_mul :: "rat \<Rightarrow> int \<Rightarrow> rat" where
  "float_mul x k = round_double (x * of_int k)"

text \<open>\<open>int(x)\<close> on a float truncates toward zero.\<close>

definition py_int :: "rat \<Rightarrow> int" where
  "py_int x = (if 0 \<le> x then \<lfloor>x\<rfloor> else \<lceil>x\<rceil>)"

section \<open>Skill set matcher\<close>

text \<open>
  The set comprehension
  \<^verbatim>\<open>{s.strip().lower() for s in text.split(',') if s.strip()}\<close>
  occurs verbatim in \<open>calculate_match_score\<close>, \<open>analyze\<close> and \<open>analyze_recruiter\<close>.
\<close>

definition skill_set :: "string \<Rightarrow> string set" where
  "skill_set text = set [lower (strip s). s \<leftarrow> split CHR '','' text, strip s \<noteq> []]"

text \<open>
  \<^verbatim>\<open>
  def calculate_match_score(resume_skills, job_skills):
      if not resume_skills or not job_skills:
          return 0
      resume_set = {...}
      job_set = {...}
      matched = resume_set.intersection(job_set)
      return int((len(matched) / len(job_set)) * 100) if job_set else 0
  \<close>
\<close>

definition calculate_match_score :: "string \<Rightarrow> string \<Rightarrow> py_error + int" where
  "calculate_match_score resume_skills job_skills =
     (if resume_skills = [] \<or> job_skills = [] then Inr 0
      else
        let resume_set = skill_set resume_skills;
            job_set = skill_set job_skills;
            matched = resume_set \<inter> job_set
        in if job_set \<noteq> {}
           then (case truediv (int (card matched)) (int (card job_set)) of
                   Inl e \<Rightarrow> Inl e
                 | Inr q \<Rightarrow> Inr (py_int (float_mul q 100)))
           else Inr 0)"


text \<open>
  The same computation written inline in the \<open>/analyze\<close> handler:
  \<^verbatim>\<open>
  matched_skills = job_skills_set.intersection(resume_skills_set)
  match_percentage = int((len(matched_skills) / len(job_skills_set)) * 100) if job_skills_set else 0
  \<close>
\<close>

definition analyze_match_percentage :: "string \<Rightarrow> string \<Rightarrow> py_error + int" where
  "analyze_match_percentage resume_skills_text job_skills_text =
     (let resume_skills_set = skill_set resume_skills_text;
          job_skills_set = skill_set job_skills_text;
          matched_skills = job_skills_set \<inter> resume_skills_set
      in if job_skills_set \<noteq> {}
         then (case truediv (int (card matched_skills)) (int (card job_skills_set)) of
                 Inl e \<Rightarrow> Inl e
               | Inr q \<Rightarrow> Inr (py_int (float_mul q 100)))
         else Inr 0)"

text \<open>
  The score as the specification words it: the size of the intersection times 100
  over the size of the job set, floored, and 0 when either set is empty.
\<close>

definition spec_score :: "string \<Rightarrow> string \<Rightarrow> int" where
  "spec_score resume_skills job_skills =
     (if skill_set resume_skills = {} \<or> skill_set job_skills = {} then 0
      else (100 * int (card (skill_set resume_skills \<inter> skill_set job_skills)))
             div int (card (skill_set job_skills)))"

section \<open>External collaborators\<close>

text \<open>
  A value decoded by \<open>json.loads\<close>. \<open>JNull\<close> is Python's \<open>None\<close>, which is also the
  sentinel the gateway functions return on failure.
\<close>

datatype json =
    JNull
  | JBool bool
  | JNum rat
  | JStr string
  | JList "json list"
  | JDict "(string \<times> json) list"

text \<open>Truth value of a decoded object, as \<open>if x:\<close> and \<open>x or y\<close> test it.\<close>

fun truthy :: "json \<Rightarrow> bool" where
  "truthy JNull = False"
| "truthy (JBool b) = b"
| "truthy (JNum r) = (r \<noteq> 0)"
| "truthy (JStr s) = (s \<noteq> [])"
| "truthy (JList xs) = (xs \<noteq> [])"
| "truthy (JDict kvs) = (kvs \<noteq> [])"

text \<open>\<open>d.get(key, default)\<close>: only a dict has the method.\<close>

fun dict_get :: "json \<Rightarrow> string \<Rightarrow> json \<Rightarrow> py_error + json" where
  "dict_get (JDict kvs) k d = Inr (case map_of kvs k of None \<Rightarrow> d | Some v \<Rightarrow> v)"
| "dict_get _ k d = Inl AttributeError"

text \<open>
  An uploaded file as PyPDF2 sees it: \<open>PdfReader\<close> raises on it, or it has pages whose
  \<open>extract_text()\<close> raises, returns \<open>None\<close>, or returns text.
\<close>

datatype page = ExtractRaises | NoText | PageText string

datatype pdf = Unreadable | Pages "page list"

record upload =
  filename :: "string option"
  content :: pdf

text \<open>
  The hosted model: \<open>generate_content(prompt).text\<close> is a string, or the call raises.
  The four prompts are told apart by what they ask for and the text they embed.
\<close>

datatype prompt =
    SkillsPrompt string
  | JobsPrompt string
  | CoverLetterPrompt string string
  | ContactPrompt string

datatype api_error = ApiError

type_synonym gemini = "prompt \<Rightarrow> api_error + string"

record env =
  gemini_model :: "gemini option"
  json_loads :: "string \<Rightarrow> json option"
  generate_pie_chart_base64 :: "int \<Rightarrow> string"
  generate_bar_chart_base64 :: "json list \<Rightarrow> int list \<Rightarrow> string"

text \<open>
  Start-up: the client is \<open>None\<close> when the key is missing or empty, or when
  configuring the library raises.
\<close>

definition configure :: "(string \<Rightarrow> api_error + gemini) \<Rightarrow> string option \<Rightarrow> gemini option" where
  "configure connect gemini_api_key =
     (case gemini_api_key of
        None \<Rightarrow> None
      | Some k \<Rightarrow> if k = [] then None
                  else (case connect k of Inl e \<Rightarrow> None | Inr m \<Rightarrow> Some m))"

section \<open>Gateway functions\<close>

definition extract_text_from_pdf :: "pdf \<Rightarrow> string option" where
  "extract_text_from_pdf pdf_file =
     (case pdf_file of
        Unreadable \<Rightarrow> None
      | Pages ps \<Rightarrow>
          if ExtractRaises \<in> set ps then None
          else Some (concat (map (\<lambda>p. case p of PageText t \<Rightarrow> t | _ \<Rightarrow> []) ps)))"

definition extract_skills_from_text :: "env \<Rightarrow> string \<Rightarrow> string option" where
  "extract_skills_from_text env text =
     (case gemini_model env of
        None \<Rightarrow> None
      | Some m \<Rightarrow>
          (case m (SkillsPrompt text) of
             Inl e \<Rightarrow> None
           | Inr t \<Rightarrow> if t \<noteq> [] then Some (strip t) else None))"

text \<open>\<open>s.replace(old, new)\<close> for a non-empty \<open>old\<close>: leftmost occurrences, not overlapping.\<close>

fun replace :: "string \<Rightarrow> string \<Rightarrow> string \<Rightarrow> string" where
  "replace old new [] = []"
| "replace old new (c # cs) =
     (if old \<noteq> [] \<and> take (length old) (c # cs) = old
      then new @ replace old new (drop (length old) (c # cs))
      else c # replace old new cs)"

definition clean_response :: "string \<Rightarrow> string" where
  "clean_response t = strip (replace ''```'' [] (replace ''```json'' [] t))"

definition recommend_jobs_from_skills :: "env \<Rightarrow> string \<Rightarrow> json" where
  "recommend_jobs_from_skills env resume_skills =
     (case gemini_model env of
        None \<Rightarrow> JNull
      | Some m \<Rightarrow>
          (case m (JobsPrompt resume_skills) of
             Inl e \<Rightarrow> JNull
           | Inr t \<Rightarrow> (case json_loads env (clean_response t) of None \<Rightarrow> JNull | Some j \<Rightarrow> j)))"

definition generate_cover_letter :: "env \<Rightarrow> string \<Rightarrow> string \<Rightarrow> string" where
  "generate_cover_letter env resume_skills job_desc =
     (case gemini_model env of
        None \<Rightarrow> ''Cover letter generation is currently unavailable. Please check your API key.''
      | Some m \<Rightarrow>
          (case m (CoverLetterPrompt resume_skills job_desc) of
             Inl e \<Rightarrow> ''Cover letter generation failed due to an API error.''
           | Inr t \<Rightarrow> if t \<noteq> [] then t else ''Cover letter generation failed due to an API error.''))"

definition extract_name_skills_and_contact :: "env \<Rightarrow> string \<Rightarrow> json" where
  "extract_name_skills_and_contact env pdf_text =
     (case gemini_model env of
        None \<Rightarrow> JNull
      | Some m \<Rightarrow>
          (case m (ContactPrompt pdf_text) of
             Inl e \<Rightarrow> JNull
           | Inr t \<Rightarrow>
               if t = [] then JNull
               else (case json_loads env (clean_response t) of None \<Rightarrow> JNull | Some j \<Rightarrow> j)))"

section \<open>Request handlers\<close>

text \<open>
  A handler returns the response it builds, or the exception that escapes it.
  \<open>list(job_skills_set - resume_skills_set)\<close> holds the elements of the difference
  in an order Python leaves open; the model keeps the set.
\<close>

record candidate =
  name :: json
  email :: json
  phone :: json
  match_percentage :: int
  missing_skills :: "string set"
  pdf_name :: "string option"
  pie_chart :: string

record analysis =
  a_match_percentage :: int
  a_missing_skills :: "string set"
  a_recommended_jobs :: json
  a_resume_skills :: string
  a_job_skills :: string

datatype response =
    ErrorResponse string nat
  | AnalyzeResponse analysis
  | RecruiterResponse "candidate list" string

record analyze_request =
  resume :: "upload option"
  job_desc :: "string option"

record recruiter_request =
  resumes :: "upload list"
  r_job_desc :: "string option"

text \<open>A string or \<open>None\<close> is false when it is \<open>None\<close> or empty.\<close>

fun falsy :: "string option \<Rightarrow> bool" where
  "falsy None = True"
| "falsy (Some s) = (s = [])"

definition analyze :: "env \<Rightarrow> analyze_request \<Rightarrow> py_error + response" where
  "analyze env req =
     (case (resume req, job_desc req) of
        (Some resume_file, Some job_desc_text) \<Rightarrow>
          (case extract_text_from_pdf (content resume_file) of
             Some pdf_text \<Rightarrow>
               if pdf_text = [] then Inr (ErrorResponse ''Failed to extract text from PDF.'' 500)
               else
                 (case (extract_skills_from_text env pdf_text,
                        extract_skills_from_text env job_desc_text) of
                    (Some resume_skills_text, Some job_skills_text) \<Rightarrow>
                      if resume_skills_text = [] \<or> job_skills_text = []
                      then Inr (ErrorResponse ''Failed to extract skills from text.'' 500)
                      else
                        (case analyze_match_percentage resume_skills_text job_skills_text of
                           Inl e \<Rightarrow> Inl e
                         | Inr mp \<Rightarrow>
                             let recommended_jobs = recommend_jobs_from_skills env resume_skills_text
                             in if \<not> truthy recommended_jobs
                                then Inr (ErrorResponse ''Failed to get job recommendations from AI.'' 500)
                                else Inr (AnalyzeResponse
                                  \<lparr>a_match_percentage = mp,
                                   a_missing_skills = skill_set job_skills_text - skill_set resume_skills_text,
                                   a_recommended_jobs = recommended_jobs,
                                   a_resume_skills = resume_skills_text,
                                   a_job_skills = job_skills_text\<rparr>))
                  | _ \<Rightarrow> Inr (ErrorResponse ''Failed to extract skills from text.'' 500))
           | None \<Rightarrow> Inr (ErrorResponse ''Failed to extract text from PDF.'' 500))
      | _ \<Rightarrow> Inr (ErrorResponse ''No file or job description provided.'' 400))"

text \<open>
  One pass of the loop over the uploaded files in \<open>analyze_recruiter\<close>: the candidate to
  append, \<open>None\<close> when the file adds none, or the exception that escapes.
\<close>

definition process_resume :: "env \<Rightarrow> string \<Rightarrow> upload \<Rightarrow> py_error + candidate option" where
  "process_resume env job_skills_text resume_file =
     (if falsy (extract_text_from_pdf (content resume_file)) then Inr None
      else
        let pdf_text = (case extract_text_from_pdf (content resume_file) of Some t \<Rightarrow> t | None \<Rightarrow> []);
            extracted_info = extract_name_skills_and_contact env pdf_text
        in if \<not> truthy extracted_info then Inr None
           else
             (case dict_get extracted_info ''skills'' (JStr []) of
                Inl e \<Rightarrow> Inl e
              | Inr (JStr resume_skills_text) \<Rightarrow>
                  (case calculate_match_score resume_skills_text job_skills_text of
                     Inl e \<Rightarrow> Inl e
                   | Inr mp \<Rightarrow>
                       (case (dict_get extracted_info ''name'' (JStr ''Unknown Candidate''),
                              dict_get extracted_info ''email'' (JStr ''N/A''),
                              dict_get extracted_info ''phone'' (JStr ''N/A'')) of
                          (Inr n, Inr e, Inr p) \<Rightarrow>
                            Inr (Some \<lparr>name = n, email = e, phone = p,
                                       match_percentage = mp,
                                       missing_skills = skill_set job_skills_text - skill_set resume_skills_text,
                                       pdf_name = filename resume_file,
                                       pie_chart = generate_pie_chart_base64 env mp\<rparr>)
                        | _ \<Rightarrow> Inl AttributeError))
              | Inr _ \<Rightarrow> Inl AttributeError))"

fun resume_loop :: "env \<Rightarrow> string \<Rightarrow> upload list \<Rightarrow> candidate list \<Rightarrow> py_error + candidate list" where
  "resume_loop env job_skills_text [] candidates = Inr candidates"
| "resume_loop env job_skills_text (resume_file # rest) candidates =
     (case process_resume env job_skills_text resume_file of
        Inl e \<Rightarrow> Inl e
      | Inr None \<Rightarrow> resume_loop env job_skills_text rest candidates
      | Inr (Some c) \<Rightarrow> resume_loop env job_skills_text rest (candidates @ [c]))"

text \<open>
  \<open>candidates.sort(key=lambda x: x['match_percentage'], reverse=True)\<close>. Python's sort is
  stable, and with \<open>reverse=True\<close> it reverses the list, sorts it stably in ascending
  order and reverses the result.
\<close>

definition sort_reverse :: "('a \<Rightarrow> int) \<Rightarrow> 'a list \<Rightarrow> 'a list" where
  "sort_reverse key xs = rev (sort_key key (rev xs))"

text \<open>\<open>c["name"] or c["pdf_name"].split('.')[0]\<close>.\<close>

definition chart_name :: "candidate \<Rightarrow> py_error + json" where
  "chart_name c =
     (if truthy (name c) then Inr (name c)
      else (case pdf_name c of
              None \<Rightarrow> Inl AttributeError
            | Some f \<Rightarrow> Inr (JStr (hd (split CHR ''.'' f)))))"

fun chart_names :: "candidate list \<Rightarrow> py_error + json list" where
  "chart_names [] = Inr []"
| "chart_names (c # cs) =
     (case chart_name c of
        Inl e \<Rightarrow> Inl e
      | Inr n \<Rightarrow> (case chart_names cs of Inl e \<Rightarrow> Inl e | Inr ns \<Rightarrow> Inr (n # ns)))"

definition analyze_recruiter :: "env \<Rightarrow> recruiter_request \<Rightarrow> py_error + response" where
  "analyze_recruiter env req =
     (case r_job_desc req of
        None \<Rightarrow> Inr (ErrorResponse ''No resumes or job description provided.'' 400)
      | Some job_desc_text \<Rightarrow>
          if resumes req = []
          then Inr (ErrorResponse ''No resumes or job description provided.'' 400)
          else
            (case extract_skills_from_text env job_desc_text of
               None \<Rightarrow> Inr (ErrorResponse ''Failed to extract skills from job description.'' 500)
             | Some job_skills_text \<Rightarrow>
                 if job_skills_text = []
                 then Inr (ErrorResponse ''Failed to extract skills from job description.'' 500)
                 else
                   (case resume_loop env job_skills_text (resumes req) [] of
                      Inl e \<Rightarrow> Inl e
                    | Inr collected \<Rightarrow>
                        let candidates = sort_reverse match_percentage collected
                        in (case chart_names candidates of
                              Inl e \<Rightarrow> Inl e
                            | Inr names \<Rightarrow>
                                Inr (RecruiterResponse candidates
                                       (generate_bar_chart_base64 env names
                                          (map match_percentage candidates)))))))"

section \<open>Test doubles for the collaborators\<close>

text \<open>
  A stand-in for the hosted model that answers every prompt with the text embedded in
  it, and a stand-in for the JSON decoder that reads a text as a candidate whose name and
  skills are that text. The charts are empty strings.
\<close>

definition echo_model :: gemini where
  "echo_model p =
     (case p of
        SkillsPrompt t \<Rightarrow> Inr t
      | JobsPrompt t \<Rightarrow> Inr t
      | CoverLetterPrompt s d \<Rightarrow> Inr s
      | ContactPrompt t \<Rightarrow> Inr t)"

definition skills_as_json :: "string \<Rightarrow> json option" where
  "skills_as_json t = Some (JDict [(''name'', JStr t), (''skills'', JStr t)])"

definition test_env :: env where
  "test_env =
     \<lparr>gemini_model = Some echo_model,
      json_loads = skills_as_json,
      generate_pie_chart_base64 = (\<lambda>mp. []),
      generate_bar_chart_base64 = (\<lambda>names scores. [])\<rparr>"

definition pdf_of :: "string \<Rightarrow> string \<Rightarrow> upload" where
  "pdf_of file_name t = \<lparr>filename = Some file_name, content = Pages [PageText t]\<rparr>"

definition broken_pdf :: "string \<Rightarrow> upload" where
  "broken_pdf file_name = \<lparr>filename = Some file_name, content = Unreadable\<rparr>"

section \<open>Rounding to a double\<close>

lemma round_half_even_le: "x \<le> of_int k \<Longrightarrow> round_half_even x \<le> k"
proof -
  assume a: "x \<le> of_int k"
  have f: "\<lfloor>x\<rfloor> \<le> k" using a by (simp add: floor_le_iff) 
  show ?thesis
  proof (cases "x = of_int k")
    case True
    then show ?thesis by (simp add: round_half_even_def)
  next
    case False
    with a have "x < of_int k" by simp
    then have "\<lfloor>x\<rfloor> < k" by (simp add: floor_less_iff)
    then show ?thesis by (simp add: round_half_even_def Let_def)
  qed
qed

lemma round_half_even_nonneg: "0 \<le> x \<Longrightarrow> 0 \<le> round_half_even x"
proof -
  assume "0 \<le> x"
  then have "0 \<le> \<lfloor>x\<rfloor>" by simp
  then show ?thesis by (simp add: round_half_even_def Let_def)
qed

lemma round_half_even_of_int: "round_half_even (of_int k) = k"
  by (simp add: round_half_even_def)

lemma ilog2_le:
  assumes "0 < x"
  shows "2 powi ilog2 x \<le> x"
proof (cases "1 \<le> x")
  case True
  define n where "n = \<lfloor>x\<rfloor>"
  have n1: "1 \<le> n" using True by (simp add: n_def le_floor_iff)
  then have bl: "1 \<le> bitlen n" by (simp add: bitlen_alt_def)
  from bitlen_bounds [of n] n1 have "2 ^ nat (bitlen n - 1) \<le> n" by simp
  then have "(of_int (2 ^ nat (bitlen n - 1)) :: rat) \<le> of_int n" by (simp only: of_int_le_iff)
  also have "\<dots> \<le> x" by (simp add: n_def)
  finally have "(2::rat) ^ nat (bitlen n - 1) \<le> x" by simp
  moreover have "ilog2 x = bitlen n - 1" using True by (simp add: ilog2_def n_def)
  ultimately show ?thesis using bl by (simp add: power_int_def)
next
  case False
  define u where "u = 1 / x"
  define n where "n = \<lfloor>u\<rfloor>"
  define k where "k = bitlen n - 1"
  have u1: "1 < u" using False assms by (simp add: u_def)
  have n1: "1 \<le> n" using u1 by (simp add: n_def le_floor_iff)
  then have k0: "0 \<le> k" by (simp add: bitlen_alt_def k_def)
  show ?thesis
  proof (cases "x * 2 ^ nat k = 1")
    case True
    then have "ilog2 x = - k" using False by (simp add: ilog2_def Let_def k_def n_def u_def)
    then have "2 powi ilog2 x = (1::rat) / 2 ^ nat k"
      using k0 by (simp add: power_int_def field_simps)
    also have "\<dots> = x" using True by (simp add: field_simps)
    finally show ?thesis by simp
  next
    case neq: False
    then have e: "ilog2 x = - k - 1" using False by (simp add: ilog2_def Let_def k_def n_def u_def)
    from bitlen_bounds [of n] n1 have "n < 2 ^ nat (bitlen n)" by simp
    then have "n + 1 \<le> 2 ^ nat (k + 1)" by (simp add: k_def)
    then have "(of_int (n + 1) :: rat) \<le> of_int (2 ^ nat (k + 1))" by (simp only: of_int_le_iff)
    moreover have "u < of_int (n + 1)" unfolding n_def by linarith
    ultimately have "u < 2 ^ nat (k + 1)" by simp
    then have "1 / 2 ^ nat (k + 1) < x" using assms by (simp add: u_def field_simps)
    moreover have "2 powi (- k - 1) = (1::rat) / 2 ^ nat (k + 1)"
      using k0 by (simp add: power_int_def field_simps nat_add_distrib)
    ultimately show ?thesis using e by simp
  qed
qed

lemma ulp_pos: "0 < ulp x"
  by (simp add: ulp_def)

lemma round_double_nonneg: "0 \<le> x \<Longrightarrow> 0 \<le> round_double x"
  using ulp_pos [of "\<bar>x\<bar>"] by (auto simp: round_double_def intro!: mult_nonneg_nonneg round_half_even_nonneg)

lemma round_double_le:
  assumes "0 < x" "x \<le> of_int K" "x < 2 ^ 53"
  shows "round_double x \<le> of_int K"
proof -
  have "2 powi ilog2 x < (2::rat) powi 53" using ilog2_le [OF assms(1)] assms(3) by simp
  then have "ilog2 x < 53" by (rule power_int_le_imp_less_exp [rotated]) simp_all
  define N where "N = nat (52 - max (ilog2 x) (- 1022))"
  have u: "ulp x = 1 / 2 ^ N" using \<open>ilog2 x < 53\<close>
    by (simp add: ulp_def N_def power_int_def field_simps)
  have "x / ulp x \<le> of_int (K * 2 ^ N)" using assms(2) by (simp add: u)
  then have "round_half_even (x / ulp x) \<le> K * 2 ^ N" by (rule round_half_even_le)
  then have "(of_int (round_half_even (x / ulp x)) :: rat) \<le> of_int (K * 2 ^ N)" by (simp only: of_int_le_iff)
  then have "of_int (round_half_even (x / ulp x)) * ulp x \<le> of_int K" by (simp add: u field_simps)
  then show ?thesis using assms(1) by (simp add: round_double_def)
qed



section \<open>Properties of the skill set matcher\<close>

lemma finite_skill_set: "finite (skill_set s)"
  by (simp add: skill_set_def)



lemma py_int_of_int: "py_int (of_int k) = k"
  by (simp add: py_int_def)

lemma float_percent_range:
  assumes "0 \<le> m" "m \<le> n" "0 < n"
  shows "\<exists>q. truediv m n = Inr q \<and> 0 \<le> py_int (float_mul q 100) \<and> py_int (float_mul q 100) \<le> 100"
proof -
  define x :: rat where "x = of_int m / of_int n"
  define q where "q = round_double x"
  have x0: "0 \<le> x" and x1: "x \<le> 1" using assms by (simp_all add: x_def)
  have q0: "0 \<le> q" unfolding q_def using x0 by (rule round_double_nonneg)
  have q1: "q \<le> 1"
  proof (cases "x = 0")
    case True
    then show ?thesis by (simp add: q_def round_double_def)
  next
    case False
    with x0 have "0 < x" by simp
    moreover have "x \<le> of_int 1" using x1 by simp
    moreover have "x < 2 ^ 53" using x1 by simp
    ultimately have "round_double x \<le> of_int 1" by (rule round_double_le)
    then show ?thesis by (simp add: q_def)
  qed
  define p where "p = float_mul q 100"
  have p0: "0 \<le> p" unfolding p_def float_mul_def using q0 by (intro round_double_nonneg) simp
  have p1: "p \<le> 100"
  proof (cases "q = 0")
    case True
    then show ?thesis by (simp add: p_def float_mul_def round_double_def)
  next
    case False
    with q0 have "0 < q * of_int 100" by simp
    moreover have "q * of_int 100 \<le> of_int 100" using q1 by simp
    moreover have "q * of_int 100 < 2 ^ 53" using q1 by simp
    ultimately have "round_double (q * of_int 100) \<le> of_int 100" by (rule round_double_le)
    then show ?thesis by (simp add: p_def float_mul_def)
  qed
  have "0 \<le> py_int p" using p0 by (simp add: py_int_def)
  moreover have "py_int p \<le> 100" using p0 p1 by (simp add: py_int_def floor_le_iff)
  moreover have "truediv m n = Inr q" using assms by (simp add: truediv_def q_def x_def)
  ultimately show ?thesis by (auto simp: p_def)
qed

lemma card_matched:
  "card (skill_set r \<inter> skill_set j) \<le> card (skill_set j)"
  by (simp add: card_mono finite_skill_set)

lemma card_job_pos: "skill_set j \<noteq> {} \<Longrightarrow> 0 < card (skill_set j)"
  by (simp add: card_gt_0_iff finite_skill_set)

text \<open>
  C1. For every pair of input strings, \<open>calculate_match_score\<close> returns (it raises nothing)
  an integer between 0 and 100 inclusive.
\<close>

theorem calculate_match_score_range:
  "\<exists>k. calculate_match_score resume_skills job_skills = Inr k \<and> 0 \<le> k \<and> k \<le> 100"
proof (cases "resume_skills = [] \<or> job_skills = [] \<or> skill_set job_skills = {}")
  case True
  then show ?thesis by (auto simp: calculate_match_score_def)
next
  case False
  let ?m = "int (card (skill_set resume_skills \<inter> skill_set job_skills))"
  let ?n = "int (card (skill_set job_skills))"
  have "0 \<le> ?m" "?m \<le> ?n" "0 < ?n"
    using False card_matched [of resume_skills job_skills] card_job_pos [of job_skills] by simp_all
  from float_percent_range [OF this] obtain q where
    "truediv ?m ?n = Inr q" "0 \<le> py_int (float_mul q 100)" "py_int (float_mul q 100) \<le> 100"
    by blast
  then show ?thesis using False by (simp add: calculate_match_score_def Let_def)
qed














text \<open>
  C10. For non-empty skill strings, the match percentage computed inline in the \<open>/analyze\<close>
  handler is the value \<open>calculate_match_score\<close> returns on the same two strings.
\<close>

theorem analyze_match_percentage_eq:
  assumes "resume_skills_text \<noteq> []" "job_skills_text \<noteq> []"
  shows "analyze_match_percentage resume_skills_text job_skills_text =
         calculate_match_score resume_skills_text job_skills_text"
  using assms by (simp add: analyze_match_percentage_def calculate_match_score_def Let_def Int_commute)

theorem analyze_match_percentage_eq_witness:
  "''python, aws'' \<noteq> [] \<and> ''python, docker, aws'' \<noteq> [] \<and>
   analyze_match_percentage ''python, aws'' ''python, docker, aws'' = Inr 66 \<and>
   calculate_match_score ''python, aws'' ''python, docker, aws'' = Inr 66"
proof -
  have a: "''python, aws'' \<noteq> []" and b: "''python, docker, aws'' \<noteq> []" by simp_all
  have c: "calculate_match_score ''python, aws'' ''python, docker, aws'' = Inr 66" by code_simp
  from analyze_match_percentage_eq [OF a b] c show ?thesis by simp
qed

section \<open>Normalization\<close>

















section \<open>The score against the floored ratio\<close>

lemma calculate_match_score_examples:
  "calculate_match_score ''python, aws'' ''python, docker, aws'' = Inr 66"
  "calculate_match_score ''docker'' ''python, docker, aws'' = Inr 33"
  "spec_score ''python, aws'' ''python, docker, aws'' = 66"
  "spec_score ''docker'' ''python, docker, aws'' = 33"
  by code_simp+

text \<open>
  C2. For non-empty skill sets the score is the floor of 100 times the size of the
  intersection over the size of the job set. The code computes the quotient and the
  product in binary64 before truncating: with 29 of 50 job skills matched, 29/50 rounds
  to a double below 0.58, the product rounds to 57.99999999999999, and the score is 57
  where the floored ratio is 58.
\<close>

theorem calculate_match_score_float_truncation:
  "skill_set ''a,b,c,d,e,f,g,h,i,j,k,l,m,n,o,p,q,r,s,t,u,v,w,x,y,z,0,1,2'' \<noteq> {} \<and>
   skill_set ''a,b,c,d,e,f,g,h,i,j,k,l,m,n,o,p,q,r,s,t,u,v,w,x,y,z,0,1,2,3,4,5,6,7,8,9,aa,bb,cc,dd,ee,ff,gg,hh,ii,jj,kk,ll,mm,nn'' \<noteq> {} \<and>
   calculate_match_score
     ''a,b,c,d,e,f,g,h,i,j,k,l,m,n,o,p,q,r,s,t,u,v,w,x,y,z,0,1,2''
     ''a,b,c,d,e,f,g,h,i,j,k,l,m,n,o,p,q,r,s,t,u,v,w,x,y,z,0,1,2,3,4,5,6,7,8,9,aa,bb,cc,dd,ee,ff,gg,hh,ii,jj,kk,ll,mm,nn''
     = Inr 57 \<and>
   spec_score
     ''a,b,c,d,e,f,g,h,i,j,k,l,m,n,o,p,q,r,s,t,u,v,w,x,y,z,0,1,2''
     ''a,b,c,d,e,f,g,h,i,j,k,l,m,n,o,p,q,r,s,t,u,v,w,x,y,z,0,1,2,3,4,5,6,7,8,9,aa,bb,cc,dd,ee,ff,gg,hh,ii,jj,kk,ll,mm,nn''
     = 58"
  by code_simp

section \<open>Recruiter mode\<close>

lemma sort_reverse_sorted: "sorted_wrt (\<lambda>a b. key b \<le> key a) (sort_reverse key xs)"
proof -
  have "sorted (map key (sort_key key (rev xs)))" by simp
  then have "sorted_wrt (\<lambda>a b. key a \<le> key b) (sort_key key (rev xs))"
    by (simp add: sorted_map)
  then show ?thesis by (simp add: sort_reverse_def sorted_wrt_rev)
qed

lemma sort_reverse_stable:
  "filter (\<lambda>x. key x = k) (sort_reverse key xs) = filter (\<lambda>x. key x = k) xs"
proof -
  have "filter (\<lambda>x. key x = k) (sort_reverse key xs) = rev (filter (\<lambda>x. key x = k) (sort_key key (rev xs)))"
    by (simp add: sort_reverse_def rev_filter)
  also have "\<dots> = rev (filter (\<lambda>x. key x = k) (rev xs))" by (simp only: sort_key_stable)
  also have "\<dots> = filter (\<lambda>x. key x = k) xs" by (simp add: rev_filter)
  finally show ?thesis .
qed

lemma sort_reverse_mset: "mset (sort_reverse key xs) = mset xs"
  by (simp add: sort_reverse_def)

lemma analyze_recruiter_candidates:
  assumes "analyze_recruiter env req = Inr (RecruiterResponse candidates chart)"
  shows "\<exists>job_skills_text collected.
           resume_loop env job_skills_text (resumes req) [] = Inr collected \<and>
           candidates = sort_reverse match_percentage collected"
  using assms
  by (auto simp: analyze_recruiter_def Let_def split: option.splits if_splits sum.splits)

text \<open>
  C7. In recruiter mode the returned candidate list is in descending order of
  \<open>match_percentage\<close>; it holds the candidates the loop collected, each as often, and
  candidates with the same percentage keep the order in which the loop met them.
\<close>

theorem analyze_recruiter_sorted:
  assumes "analyze_recruiter env req = Inr (RecruiterResponse candidates chart)"
  shows "sorted_wrt (\<lambda>a b. match_percentage b \<le> match_percentage a) candidates \<and>
         (\<exists>job_skills_text collected.
            resume_loop env job_skills_text (resumes req) [] = Inr collected \<and>
            mset candidates = mset collected \<and>
            (\<forall>k. filter (\<lambda>c. match_percentage c = k) candidates =
                  filter (\<lambda>c. match_percentage c = k) collected))"
proof -
  from analyze_recruiter_candidates [OF assms] obtain job_skills_text collected where
    c: "resume_loop env job_skills_text (resumes req) [] = Inr collected"
       "candidates = sort_reverse match_percentage collected"
    by blast
  have "sorted_wrt (\<lambda>a b. match_percentage b \<le> match_percentage a) candidates"
    unfolding c(2) by (rule sort_reverse_sorted)
  moreover have "mset candidates = mset collected" unfolding c(2) by (rule sort_reverse_mset)
  moreover have "\<forall>k. filter (\<lambda>c. match_percentage c = k) candidates =
                     filter (\<lambda>c. match_percentage c = k) collected"
    unfolding c(2) by (simp add: sort_reverse_stable)
  ultimately show ?thesis using c(1) by blast
qed


theorem analyze_recruiter_sorted_witness:
  "analyze_recruiter test_env
     \<lparr>resumes = [pdf_of ''a.pdf'' ''docker'', pdf_of ''c.pdf'' ''python, aws'', pdf_of ''d.pdf'' ''AWS''],
      r_job_desc = Some ''python, docker, aws''\<rparr>
   = Inr (RecruiterResponse
       [\<lparr>name = JStr ''python, aws'', email = JStr ''N/A'', phone = JStr ''N/A'',
          match_percentage = 66, missing_skills = {''docker''},
          pdf_name = Some ''c.pdf'', pie_chart = []\<rparr>,
        \<lparr>name = JStr ''docker'', email = JStr ''N/A'', phone = JStr ''N/A'',
          match_percentage = 33, missing_skills = {''python'', ''aws''},
          pdf_name = Some ''a.pdf'', pie_chart = []\<rparr>,
        \<lparr>name = JStr ''AWS'', email = JStr ''N/A'', phone = JStr ''N/A'',
          match_percentage = 33, missing_skills = {''python'', ''docker''},
          pdf_name = Some ''d.pdf'', pie_chart = []\<rparr>] [])
   \<and> sorted_wrt (\<lambda>a b. match_percentage b \<le> match_percentage a)
       [\<lparr>name = JStr ''python, aws'', email = JStr ''N/A'', phone = JStr ''N/A'',
          match_percentage = 66, missing_skills = {''docker''},
          pdf_name = Some ''c.pdf'', pie_chart = []\<rparr>,
        \<lparr>name = JStr ''docker'', email = JStr ''N/A'', phone = JStr ''N/A'',
          match_percentage = 33, missing_skills = {''python'', ''aws''},
          pdf_name = Some ''a.pdf'', pie_chart = []\<rparr>,
        \<lparr>name = JStr ''AWS'', email = JStr ''N/A'', phone = JStr ''N/A'',
          match_percentage = 33, missing_skills = {''python'', ''docker''},
          pdf_name = Some ''d.pdf'', pie_chart = []\<rparr>]"
proof -
  have h: "analyze_recruiter test_env
     \<lparr>resumes = [pdf_of ''a.pdf'' ''docker'', pdf_of ''c.pdf'' ''python, aws'', pdf_of ''d.pdf'' ''AWS''],
      r_job_desc = Some ''python, docker, aws''\<rparr>
   = Inr (RecruiterResponse
       [\<lparr>name = JStr ''python, aws'', email = JStr ''N/A'', phone = JStr ''N/A'',
          match_percentage = 66, missing_skills = {''docker''},
          pdf_name = Some ''c.pdf'', pie_chart = []\<rparr>,
        \<lparr>name = JStr ''docker'', email = JStr ''N/A'', phone = JStr ''N/A'',
          match_percentage = 33, missing_skills = {''python'', ''aws''},
          pdf_name = Some ''a.pdf'', pie_chart = []\<rparr>,
        \<lparr>name = JStr ''AWS'', email = JStr ''N/A'', phone = JStr ''N/A'',
          match_percentage = 33, missing_skills = {''python'', ''docker''},
          pdf_name = Some ''d.pdf'', pie_chart = []\<rparr>] [])"
    by code_simp
  from analyze_recruiter_sorted [OF h] h show ?thesis by blast
qed

lemma resume_loop_append:
  "resume_loop env job (xs @ ys) acc =
     (case resume_loop env job xs acc of Inl e \<Rightarrow> Inl e | Inr acc' \<Rightarrow> resume_loop env job ys acc')"
  by (induction xs arbitrary: acc) (simp_all split: sum.splits option.splits)

lemma process_resume_no_text:
  "falsy (extract_text_from_pdf (content f)) \<Longrightarrow> process_resume env job f = Inr None"
  by (simp add: process_resume_def)

lemma resume_loop_skip:
  assumes "falsy (extract_text_from_pdf (content f))"
  shows "resume_loop env job (before @ f # rest) acc = resume_loop env job (before @ rest) acc"
  using assms by (simp add: resume_loop_append process_resume_no_text split: sum.splits)

text \<open>
  C8. In recruiter mode a file whose text extraction yields no text adds no candidate and
  raises nothing: the loop gives the result it gives without the file, and so does the
  handler whenever another file is uploaded.
\<close>

theorem analyze_recruiter_skips_unreadable:
  assumes "falsy (extract_text_from_pdf (content f))"
  shows "process_resume env job f = Inr None \<and>
         resume_loop env job (before @ f # rest) acc = resume_loop env job (before @ rest) acc \<and>
         (before @ rest \<noteq> [] \<longrightarrow>
            analyze_recruiter env \<lparr>resumes = before @ f # rest, r_job_desc = jd\<rparr> =
            analyze_recruiter env \<lparr>resumes = before @ rest, r_job_desc = jd\<rparr>)"
proof -
  have "analyze_recruiter env \<lparr>resumes = before @ f # rest, r_job_desc = jd\<rparr> =
        analyze_recruiter env \<lparr>resumes = before @ rest, r_job_desc = jd\<rparr>"
    if "before @ rest \<noteq> []"
    using that resume_loop_skip [OF assms, of env _ before rest "[]"]
    by (cases jd) (auto simp: analyze_recruiter_def split: option.splits)
  then show ?thesis
    using assms by (simp add: process_resume_no_text resume_loop_skip)
qed

theorem analyze_recruiter_skips_unreadable_witness:
  "falsy (extract_text_from_pdf (content (broken_pdf ''b.pdf''))) \<and>
   [pdf_of ''a.pdf'' ''docker''] @ [pdf_of ''c.pdf'' ''python, aws''] \<noteq> [] \<and>
   process_resume test_env ''python, docker, aws'' (broken_pdf ''b.pdf'') = Inr None \<and>
   analyze_recruiter test_env
     \<lparr>resumes = [pdf_of ''a.pdf'' ''docker''] @ broken_pdf ''b.pdf'' # [pdf_of ''c.pdf'' ''python, aws''],
      r_job_desc = Some ''python, docker, aws''\<rparr> =
   analyze_recruiter test_env
     \<lparr>resumes = [pdf_of ''a.pdf'' ''docker''] @ [pdf_of ''c.pdf'' ''python, aws''],
      r_job_desc = Some ''python, docker, aws''\<rparr>"
proof -
  have h: "falsy (extract_text_from_pdf (content (broken_pdf ''b.pdf'')))" by code_simp
  have n: "[pdf_of ''a.pdf'' ''docker''] @ [pdf_of ''c.pdf'' ''python, aws''] \<noteq> []" by simp
  from analyze_recruiter_skips_unreadable [OF h, of test_env "''python, docker, aws''"
      "[pdf_of ''a.pdf'' ''docker'']" "[pdf_of ''c.pdf'' ''python, aws'']" "[]" "Some ''python, docker, aws''"] h n
  show ?thesis by blast
qed

section \<open>Missing skills\<close>





section \<open>Missing credential\<close>

lemma configure_absent: "falsy k \<Longrightarrow> configure connect k = None"
  by (cases k) (simp_all add: configure_def)

lemma analyze_no_model:
  assumes "gemini_model env = None"
  shows "\<exists>msg code. analyze env req = Inr (ErrorResponse msg code)"
  using assms
  by (auto simp: analyze_def extract_skills_from_text_def split: option.splits)

lemma analyze_recruiter_no_model:
  assumes "gemini_model env = None"
  shows "\<exists>msg code. analyze_recruiter env req = Inr (ErrorResponse msg code)"
  using assms
  by (auto simp: analyze_recruiter_def extract_skills_from_text_def split: option.splits)

text \<open>
  C9. When the API key is missing or empty at start-up the model client is \<open>None\<close>, and
  then nothing crashes: the three extraction functions return \<open>None\<close>, the cover letter
  is the local "unavailable" text, and both analysis endpoints answer with an error
  response.
\<close>

theorem no_credential_degrades:
  assumes "falsy gemini_api_key" "gemini_model env = configure connect gemini_api_key"
  shows "extract_skills_from_text env text = None \<and>
         recommend_jobs_from_skills env resume_skills = JNull \<and>
         extract_name_skills_and_contact env pdf_text = JNull \<and>
         generate_cover_letter env resume_skills job_desc_text =
           ''Cover letter generation is currently unavailable. Please check your API key.'' \<and>
         (\<exists>msg code. analyze env req = Inr (ErrorResponse msg code)) \<and>
         (\<exists>msg code. analyze_recruiter env rreq = Inr (ErrorResponse msg code))"
proof -
  have n: "gemini_model env = None" using assms by (simp add: configure_absent)
  then show ?thesis
    using analyze_no_model [OF n, of req] analyze_recruiter_no_model [OF n, of rreq]
    by (simp add: extract_skills_from_text_def recommend_jobs_from_skills_def
        extract_name_skills_and_contact_def generate_cover_letter_def)
qed

theorem no_credential_degrades_witness:
  "falsy None \<and>
   gemini_model (test_env\<lparr>gemini_model := None\<rparr>) = configure (\<lambda>k. Inr echo_model) None \<and>
   extract_skills_from_text (test_env\<lparr>gemini_model := None\<rparr>) ''python, sql'' = None \<and>
   recommend_jobs_from_skills (test_env\<lparr>gemini_model := None\<rparr>) ''python'' = JNull \<and>
   extract_name_skills_and_contact (test_env\<lparr>gemini_model := None\<rparr>) ''cv'' = JNull \<and>
   generate_cover_letter (test_env\<lparr>gemini_model := None\<rparr>) ''python'' ''a job'' =
     ''Cover letter generation is currently unavailable. Please check your API key.''"
proof -
  have f: "falsy None" by simp
  have g: "gemini_model (test_env\<lparr>gemini_model := None\<rparr>) = configure (\<lambda>k. Inr echo_model) None"
    by (simp add: configure_def)
  from no_credential_degrades [OF f g, of "''python, sql''" "''python''" "''cv''" "''a job''"] f g
  show ?thesis by blast
qed

end
